theory Spec2Isabelle
  imports Main
begin

section \<open>JavaScript values\<close>

text \<open>
  The field values that occur in the records of this backend are JSON scalars. Numbers
  are the integers the code computes with (epoch milliseconds, seconds, flags).
\<close>

datatype jsval = JUndefined | JNull | JBool bool | JNum int | JStr string

text \<open>JavaScript truthiness, as tested by \<open>!x\<close>, \<open>x && y\<close> and \<open>x || y\<close>.\<close>

fun truthy :: "jsval \<Rightarrow> bool" where
  "truthy JUndefined = False"
| "truthy JNull = False"
| "truthy (JBool b) = b"
| "truthy (JNum n) = (n \<noteq> 0)"
| "truthy (JStr s) = (s \<noteq> [])"

text \<open>An object is a map from field names to values; a missing field reads as
  \<open>undefined\<close>.\<close>

type_synonym obj = "string \<rightharpoonup> jsval"

definition field :: "obj \<Rightarrow> string \<Rightarrow> jsval" where
  "field ob k = (case ob k of None \<Rightarrow> JUndefined | Some v \<Rightarrow> v)"

section \<open>The token manager\<close>

subsection \<open>Data\<close>

text \<open>
  The credential record stored under the key \<open>servicem8:tokens\<close>. Every field may be
  missing (\<open>None\<close>: the field is absent or null). \<open>other_fields\<close> holds whatever else
  the stored object carries; the object spread of the refresher keeps it.
\<close>

record tokens =
  access_token :: "string option"
  refresh_token :: "string option"
  expires_in :: "int option"
  expires_at :: "int option"
  last_refreshed :: "int option"
  other_fields :: obj

text \<open>The form posted to the provider's token endpoint.\<close>

record grant_form =
  grant_type :: string
  client_id :: string
  client_secret :: string
  form_refresh_token :: string

text \<open>
  What \<open>axios.post\<close> does: it resolves with \<open>response.data\<close>, whose fields
  \<open>access_token\<close>, \<open>refresh_token\<close> and \<open>expires_in\<close> are the arguments of
  \<open>Response\<close> in that order, or it rejects with an error whose
  \<open>error.response?.data?.error\<close> is the argument of \<open>Rejected\<close> (\<open>None\<close> when the
  error carries no such code, as a network failure does).
\<close>

text \<open>The refresher reads these three fields of \<open>response.data\<close> and no other.\<close>

datatype token_response = Response string string int

datatype reply = Granted token_response | Rejected "string option"

text \<open>The errors \<open>refreshAccessToken\<close> throws: the \<open>Error\<close> of line 82 and the error
  of the rejected request.\<close>

datatype error = MissingCredentials | RequestFailed "string option"

fun error_code :: "error \<Rightarrow> string option" where
  "error_code MissingCredentials = None"
| "error_code (RequestFailed c) = c"

text \<open>
  Everything the module reads and writes outside itself: the Redis key and whether
  \<open>redis.get\<close> and \<open>redis.set\<close> succeed, \<open>process.env\<close>, the clock \<open>Date.now()\<close>
  (milliseconds since the epoch) and the provider's token endpoint. One call of a
  function of the module runs in one such world: the clock and the availability of the
  store do not change while it runs, and no other call runs in between. What the module
  prints with \<open>console.log\<close> and \<open>console.error\<close> is left out. The last three
  fields are observation only: the forms posted to the provider, the records handed to
  \<open>redis.set\<close>, and the number of calls of \<open>refreshAccessToken\<close>.
\<close>

record world =
  redis_tokens :: "tokens option"
  redis_get_ok :: bool
  redis_set_ok :: bool
  process_env :: "string \<rightharpoonup> string"
  now :: nat
  token_endpoint :: "grant_form \<Rightarrow> reply"
  posts :: "grant_form list"
  redis_sets :: "tokens list"
  refresh_calls :: nat

subsection \<open>Functions\<close>

definition truthy_str :: "string option \<Rightarrow> bool" where
  "truthy_str x = (case x of None \<Rightarrow> False | Some s \<Rightarrow> s \<noteq> [])"

definition truthy_num :: "int option \<Rightarrow> bool" where
  "truthy_num x = (case x of None \<Rightarrow> False | Some n \<Rightarrow> n \<noteq> 0)"

text \<open>\<open>process.env.X || ''\<close>\<close>

definition env_or_empty :: "world \<Rightarrow> string \<Rightarrow> string" where
  "env_or_empty w k = (case process_env w k of None \<Rightarrow> [] | Some v \<Rightarrow> v)"

definition calculateTokenExpiry :: "world \<Rightarrow> int \<Rightarrow> int" where
  "calculateTokenExpiry w expiresIn = int (now w) + expiresIn * 1000"

text \<open>The object literal of lines 27-32 and 36-41.\<close>

definition env_tokens :: "world \<Rightarrow> tokens" where
  "env_tokens w =
     \<lparr> access_token = Some (env_or_empty w ''SERVICEM8_ACCESS_TOKEN''),
       refresh_token = Some (env_or_empty w ''SERVICEM8_REFRESH_TOKEN''),
       expires_in = Some 0,
       expires_at = Some 0,
       last_refreshed = None,
       other_fields = Map.empty \<rparr>"

text \<open>\<open>readTokenData\<close> changes nothing, so it returns the record only. A stored object is
  truthy whatever its fields.\<close>

definition readTokenData :: "world \<Rightarrow> tokens" where
  "readTokenData w =
     (if redis_get_ok w then
        (case redis_tokens w of
           Some stored \<Rightarrow> stored
         | None \<Rightarrow> env_tokens w)
      else env_tokens w)"

definition writeTokenData :: "tokens \<Rightarrow> world \<Rightarrow> bool \<times> world" where
  "writeTokenData data w =
     (if redis_set_ok w then
        (True, w\<lparr>redis_tokens := Some data, redis_sets := redis_sets w @ [data]\<rparr>)
      else
        (False, w\<lparr>redis_sets := redis_sets w @ [data]\<rparr>))"

definition isTokenExpired :: "world \<Rightarrow> bool" where
  "isTokenExpired w =
     (let tokenData = readTokenData w in
      case expires_at tokenData of
        None \<Rightarrow> True
      | Some e \<Rightarrow>
          if e = 0 then True
          else (let fiveMinutesInMs = 5 * 60 * 1000
                in int (now w) + fiveMinutesInMs > e))"

definition needsProactiveRefresh :: "world \<Rightarrow> bool" where
  "needsProactiveRefresh w =
     (let tokenData = readTokenData w in
      if \<not> truthy_num (expires_at tokenData) then True
      else case last_refreshed tokenData of
        None \<Rightarrow> True
      | Some lr \<Rightarrow>
          if lr = 0 then True
          else (let refreshIntervalMs = 3000 * 1000;
                    timeSinceLastRefresh = int (now w) - lr
                in timeSinceLastRefresh \<ge> refreshIntervalMs))"

text \<open>The object literal of lines 131-136.\<close>

definition invalidTokenData :: tokens where
  "invalidTokenData =
     \<lparr> access_token = Some [],
       refresh_token = Some [],
       expires_in = Some 0,
       expires_at = Some 0,
       last_refreshed = None,
       other_fields = Map.empty \<rparr>"

text \<open>The \<open>catch\<close> block of \<open>refreshAccessToken\<close> (lines 122-145): it clears the stored
  tokens on \<open>invalid_grant\<close> and throws the error again.\<close>

definition refresh_catch :: "error \<Rightarrow> world \<Rightarrow> (error + string) \<times> world" where
  "refresh_catch err w =
     (let w' = (if error_code err = Some ''invalid_grant''
                then snd (writeTokenData invalidTokenData w) else w)
      in (Inl err, w'))"

definition refreshAccessToken :: "world \<Rightarrow> (error + string) \<times> world" where
  "refreshAccessToken w_in =
     (let w = w_in\<lparr>refresh_calls := refresh_calls w_in + 1\<rparr>;
          tokenData = readTokenData w
      in case (process_env w ''SERVICEM8_CLIENT_ID'',
               process_env w ''SERVICEM8_CLIENT_SECRET'',
               refresh_token tokenData) of
           (Some cid, Some secret, Some rt) \<Rightarrow>
             if cid = [] \<or> secret = [] \<or> rt = [] then refresh_catch MissingCredentials w
             else
               (let formData = \<lparr> grant_type = ''refresh_token'', client_id = cid,
                                  client_secret = secret, form_refresh_token = rt \<rparr>;
                    w1 = w\<lparr>posts := posts w @ [formData]\<rparr>
                in case token_endpoint w1 formData of
                     Granted (Response new_access_token newRefreshToken new_expires_in) \<Rightarrow>
                       (let new_expires_at = calculateTokenExpiry w1 new_expires_in;
                            newTokenData = tokenData
                              \<lparr> access_token := Some new_access_token,
                                refresh_token := Some newRefreshToken,
                                expires_in := Some new_expires_in,
                                expires_at := Some new_expires_at,
                                last_refreshed := Some (int (now w1)) \<rparr>
                        in (Inr new_access_token, snd (writeTokenData newTokenData w1)))
                   | Rejected code \<Rightarrow> refresh_catch (RequestFailed code) w1)
         | _ \<Rightarrow> refresh_catch MissingCredentials w)"

definition getValidAccessToken :: "world \<Rightarrow> (error + string) \<times> world" where
  "getValidAccessToken w =
     (let tokenData = readTokenData w in
      case access_token tokenData of
        None \<Rightarrow> refreshAccessToken w
      | Some tok \<Rightarrow>
          if tok = [] then refreshAccessToken w
          else if isTokenExpired w then refreshAccessToken w
          else if needsProactiveRefresh w then refreshAccessToken w
          else (Inr tok, w))"

subsection \<open>The background monitor\<close>

text \<open>
  \<open>startTokenMonitor\<close> keeps one counter, \<open>consecutiveFailures\<close>, and starts two things
  that it does not wait for: the \<open>getValidAccessToken()\<close> of line 208 and the timer of
  line 219. The callback of the timer is \<open>async\<close>: it tests the counter when it fires
  (line 222) and then awaits the store and the provider, with no timeout, so the timer
  can fire again before an earlier tick has settled. The state of the monitor is the
  counter, whether the start-up check is still pending, how many ticks have passed the
  test of line 222 and have not settled, and the world.
\<close>

definition maxConsecutiveFailures :: nat where
  "maxConsecutiveFailures = 3"

record monitor =
  consecutiveFailures :: nat
  startup_pending :: bool
  in_flight :: nat
  monitor_world :: world

definition startTokenMonitor :: "world \<Rightarrow> monitor" where
  "startTokenMonitor w =
     \<lparr> consecutiveFailures = 0, startup_pending = True, in_flight = 0, monitor_world = w \<rparr>"

text \<open>The start-up check settles (lines 208-216): \<open>then\<close> sets the counter to 0,
  \<open>catch\<close> adds one to it.\<close>

definition startup_settles :: "monitor \<Rightarrow> monitor" where
  "startup_settles s =
     (if \<not> startup_pending s then s
      else case getValidAccessToken (monitor_world s) of
        (Inr _, w') \<Rightarrow>
          s\<lparr>consecutiveFailures := 0, startup_pending := False, monitor_world := w'\<rparr>
      | (Inl _, w') \<Rightarrow>
          s\<lparr>consecutiveFailures := consecutiveFailures s + 1, startup_pending := False,
            monitor_world := w'\<rparr>)"

text \<open>The timer fires (lines 220-225): a paused monitor prints a line and returns; otherwise
  the tick goes on to its first \<open>await\<close> and is in flight.\<close>

definition tick_fires :: "monitor \<Rightarrow> monitor" where
  "tick_fires s =
     (if consecutiveFailures s \<ge> maxConsecutiveFailures then s
      else s\<lparr>in_flight := in_flight s + 1\<rparr>)"

text \<open>
  A tick in flight settles (lines 227-250): the rest of the callback, taken as one step.
  The counter is not tested again. The record read on line 227 goes into a log line
  only, so the model leaves it out.
\<close>

definition tick_settles :: "monitor \<Rightarrow> monitor" where
  "tick_settles s =
     (if in_flight s = 0 then s
      else if needsProactiveRefresh (monitor_world s) then
        (case refreshAccessToken (monitor_world s) of
           (Inr _, w') \<Rightarrow>
             s\<lparr>consecutiveFailures := 0, in_flight := in_flight s - 1, monitor_world := w'\<rparr>
         | (Inl _, w') \<Rightarrow>
             s\<lparr>consecutiveFailures := consecutiveFailures s + 1, in_flight := in_flight s - 1,
               monitor_world := w'\<rparr>)
      else s\<lparr>in_flight := in_flight s - 1\<rparr>)"

text \<open>
  What can happen to a running monitor, in any order: the start-up check settles, the
  timer fires, a tick in flight settles, or the surroundings change the world (the clock
  advances, requests refresh the tokens, the provider or the store go down or come back).
\<close>

datatype monitor_event = Startup_settles | Tick_fires | Tick_settles | World_changes "world \<Rightarrow> world"

fun monitor_step :: "monitor_event \<Rightarrow> monitor \<Rightarrow> monitor" where
  "monitor_step Startup_settles s = startup_settles s"
| "monitor_step Tick_fires s = tick_fires s"
| "monitor_step Tick_settles s = tick_settles s"
| "monitor_step (World_changes f) s = s\<lparr>monitor_world := f (monitor_world s)\<rparr>"

fun monitor_run :: "monitor_event list \<Rightarrow> monitor \<Rightarrow> monitor" where
  "monitor_run [] s = s"
| "monitor_run (ev # evs) s = monitor_run evs (monitor_step ev s)"

text \<open>
  A run without overlap: the timer fires only when the start-up check has settled and no
  tick is in flight.
\<close>

fun no_overlap :: "monitor_event list \<Rightarrow> monitor \<Rightarrow> bool" where
  "no_overlap [] s = True"
| "no_overlap (ev # evs) s =
     ((case ev of
         Tick_fires \<Rightarrow> in_flight s = 0 \<and> \<not> startup_pending s
       | _ \<Rightarrow> True)
      \<and> no_overlap evs (monitor_step ev s))"

text \<open>What holds of the monitor throughout a run without overlap.\<close>

definition monitor_bounded :: "monitor \<Rightarrow> bool" where
  "monitor_bounded s \<longleftrightarrow>
     consecutiveFailures s \<le> 3
     \<and> in_flight s + (if startup_pending s then 1 else 0) \<le> 1
     \<and> (in_flight s = 1 \<or> startup_pending s \<longrightarrow> consecutiveFailures s < 3)"

section \<open>Location data of jobs\<close>

text \<open>The module's cache of locations: \<open>locationsCache\<close> (\<open>None\<close> is \<open>null\<close>) and
  \<open>locationsCacheExpiry\<close>.\<close>

record location_cache =
  locationsCache :: "obj list option"
  locationsCacheExpiry :: nat

definition CACHE_DURATION :: nat where
  "CACHE_DURATION = 5 * 60 * 1000"

text \<open>\<open>now_ms\<close> is \<open>Date.now()\<close>; \<open>api\<close> is what \<open>servicem8.getLocationAll()\<close> gives:
  \<open>Some data\<close>, or \<open>None\<close> when it throws. A cached array is truthy even when empty.\<close>

definition getAllLocations ::
  "nat \<Rightarrow> obj list option \<Rightarrow> location_cache \<Rightarrow> obj list \<times> location_cache" where
  "getAllLocations now_ms api s =
     (case (locationsCache s, now_ms < locationsCacheExpiry s) of
        (Some cached, True) \<Rightarrow> (cached, s)
      | _ \<Rightarrow>
        (case api of
           Some data \<Rightarrow>
             (data, s\<lparr>locationsCache := Some data,
                      locationsCacheExpiry := now_ms + CACHE_DURATION\<rparr>)
         | None \<Rightarrow> ([], s)))"

text \<open>
  How \<open>Array.prototype.join\<close> turns an element into a string: \<open>undefined\<close> and \<open>null\<close>
  give the empty string, a number gives what the runtime's \<open>Number.prototype.toString\<close>
  gives, which the model takes as the parameter \<open>number_string\<close>.
\<close>

fun join_element :: "(int \<Rightarrow> string) \<Rightarrow> jsval \<Rightarrow> string" where
  "join_element number_string JUndefined = []"
| "join_element number_string JNull = []"
| "join_element number_string (JBool b) = (if b then ''true'' else ''false'')"
| "join_element number_string (JNum n) = number_string n"
| "join_element number_string (JStr s) = s"

fun join :: "(int \<Rightarrow> string) \<Rightarrow> string \<Rightarrow> jsval list \<Rightarrow> string" where
  "join number_string sep [] = []"
| "join number_string sep [x] = join_element number_string x"
| "join number_string sep (x # y # rest) =
     join_element number_string x @ sep @ join number_string sep (y # rest)"

text \<open>\<open>if (v) parts.push(v)\<close>\<close>

definition push_if :: "bool \<Rightarrow> jsval \<Rightarrow> jsval list \<Rightarrow> jsval list" where
  "push_if c v parts = (if c then parts @ [v] else parts)"

fun formatLocationAddress :: "(int \<Rightarrow> string) \<Rightarrow> obj option \<Rightarrow> jsval" where
  "formatLocationAddress number_string None = JNull"
| "formatLocationAddress number_string (Some location) =
     (let parts = [];
          parts = push_if (truthy (field location ''line1'')) (field location ''line1'') parts;
          parts = push_if (truthy (field location ''line2'')) (field location ''line2'') parts;
          parts = push_if (truthy (field location ''city'')) (field location ''city'') parts;
          parts = push_if (truthy (field location ''state'')) (field location ''state'') parts;
          parts = push_if (truthy (field location ''post_code'')) (field location ''post_code'') parts;
          parts = push_if (truthy (field location ''country'')
                           \<and> field location ''country'' \<noteq> JStr ''Australia'')
                          (field location ''country'') parts
      in JStr (join number_string '', '' parts))"

text \<open>\<open>a || b\<close>\<close>

definition js_or :: "jsval \<Rightarrow> jsval \<Rightarrow> jsval" where
  "js_or a b = (if truthy a then a else b)"

text \<open>The \<open>Map\<close> built by the \<open>forEach\<close> of lines 46-51: a later location with the same
  uuid replaces an earlier one.\<close>

definition locationMap_of :: "obj list \<Rightarrow> (jsval \<rightharpoonup> obj)" where
  "locationMap_of locations =
     foldl (\<lambda>m location.
              if truthy (field location ''uuid'') then m(field location ''uuid'' \<mapsto> location)
              else m)
           Map.empty locations"

text \<open>The callback of \<open>jobs.map\<close> (lines 54-78).\<close>

definition resolve_job :: "(int \<Rightarrow> string) \<Rightarrow> (jsval \<rightharpoonup> obj) \<Rightarrow> obj \<Rightarrow> obj" where
  "resolve_job number_string locationMap job =
     (if truthy (field job ''location_uuid'') then
        (case locationMap (field job ''location_uuid'') of
           Some location \<Rightarrow>
             job(''location_address'' \<mapsto> formatLocationAddress number_string (Some location),
                 ''location_name'' \<mapsto> field location ''name'',
                 ''location_city'' \<mapsto> field location ''city'',
                 ''location_state'' \<mapsto> field location ''state'',
                 ''location_postcode'' \<mapsto> field location ''post_code'',
                 ''location_country'' \<mapsto> field location ''country'',
                 ''geo_street'' \<mapsto> field location ''line1'',
                 ''geo_city'' \<mapsto> field location ''city'',
                 ''geo_state'' \<mapsto> field location ''state'',
                 ''geo_postcode'' \<mapsto> field location ''post_code'',
                 ''geo_country'' \<mapsto> field location ''country'',
                 ''job_address'' \<mapsto> js_or (field job ''job_address'')
                                          (formatLocationAddress number_string (Some location)))
         | None \<Rightarrow> job)
      else job)"

text \<open>The keys that the object literal of lines 59-75 sets after the spread of the job.\<close>

definition location_fields :: "string set" where
  "location_fields =
     {''location_address'', ''location_name'', ''location_city'', ''location_state'',
      ''location_postcode'', ''location_country'', ''geo_street'', ''geo_city'', ''geo_state'',
      ''geo_postcode'', ''geo_country'', ''job_address''}"

text \<open>The argument of \<open>resolveJobLocationData\<close>: an array of jobs or one job.\<close>

datatype jobs_arg = JobArray "obj list" | JobObject obj

definition resolveJobLocationData ::
  "(int \<Rightarrow> string) \<Rightarrow> nat \<Rightarrow> obj list option \<Rightarrow> jobs_arg \<Rightarrow> location_cache
     \<Rightarrow> jobs_arg \<times> location_cache" where
  "resolveJobLocationData number_string now_ms api jobs_in s =
     (let wasArray = (case jobs_in of JobArray _ \<Rightarrow> True | JobObject _ \<Rightarrow> False);
          jobs = (case jobs_in of JobArray js \<Rightarrow> js | JobObject j \<Rightarrow> [j]);
          (locations, s') = getAllLocations now_ms api s;
          locationMap = locationMap_of locations;
          resolvedJobs = map (resolve_job number_string locationMap) jobs
      in (if wasArray then JobArray resolvedJobs else JobObject (resolvedJobs ! 0), s'))"

section \<open>Example worlds\<close>

text \<open>A stored record refreshed at the current time, with one hour to live, and worlds
  that differ from it in one respect each.\<close>

definition fresh_tokens :: tokens where
  "fresh_tokens =
     \<lparr> access_token = Some ''at-1'', refresh_token = Some ''rt-1'',
       expires_in = Some 3600, expires_at = Some 1700003600000,
       last_refreshed = Some 1700000000000,
       other_fields = [''token_type'' \<mapsto> JStr ''bearer''] \<rparr>"

definition example_env :: "string \<rightharpoonup> string" where
  "example_env =
     [''SERVICEM8_CLIENT_ID'' \<mapsto> ''id-1'', ''SERVICEM8_CLIENT_SECRET'' \<mapsto> ''secret-1'',
      ''SERVICEM8_ACCESS_TOKEN'' \<mapsto> ''env-at'', ''SERVICEM8_REFRESH_TOKEN'' \<mapsto> ''env-rt'']"

definition fresh_world :: world where
  "fresh_world =
     \<lparr> redis_tokens = Some fresh_tokens, redis_get_ok = True, redis_set_ok = True,
       process_env = example_env, now = 1700000000000,
       token_endpoint = (\<lambda>form. Granted (Response ''at-2'' ''rt-2'' 3600)),
       posts = [], redis_sets = [], refresh_calls = 0 \<rparr>"

definition empty_token_world :: world where
  "empty_token_world =
     fresh_world\<lparr>redis_tokens :=
       Some \<lparr> access_token = Some [], refresh_token = None, expires_in = None,
              expires_at = None, last_refreshed = None, other_fields = Map.empty \<rparr>\<rparr>"

definition rejecting_world :: world where
  "rejecting_world = fresh_world\<lparr>token_endpoint := (\<lambda>form. Rejected (Some ''invalid_grant''))\<rparr>"

definition set_down_world :: world where
  "set_down_world = rejecting_world\<lparr>redis_set_ok := False\<rparr>"

definition zero_expiry_world :: world where
  "zero_expiry_world =
     fresh_world\<lparr>redis_tokens := Some (fresh_tokens\<lparr>expires_at := Some 0\<rparr>)\<rparr>"

definition epoch_world :: world where
  "epoch_world =
     fresh_world\<lparr>redis_tokens := Some (fresh_tokens\<lparr>last_refreshed := Some 0\<rparr>), now := 0\<rparr>"

definition outage_world :: world where
  "outage_world = fresh_world\<lparr>redis_get_ok := False, redis_set_ok := False\<rparr>"

definition no_client_world :: world where
  "no_client_world = fresh_world\<lparr>process_env := example_env(''SERVICEM8_CLIENT_ID'' := None)\<rparr>"

definition offline_world :: world where
  "offline_world =
     fresh_world\<lparr>now := 1700003000000, token_endpoint := (\<lambda>form. Rejected None)\<rparr>"

definition due_world :: world where
  "due_world = fresh_world\<lparr>now := 1700003000000\<rparr>"

text \<open>
  The provider cannot be reached, and the stored tokens are due for a proactive refresh
  and not yet expired.
\<close>

definition provider_down :: "world \<Rightarrow> bool" where
  "provider_down w \<longleftrightarrow>
     redis_get_ok w \<and> redis_tokens w = Some fresh_tokens \<and> process_env w = example_env
     \<and> now w = 1700003000000 \<and> token_endpoint w = (\<lambda>form. Rejected None)"

text \<open>
  A monitor whose world is such a world, with its counter, whether the start-up check is
  pending, the number of ticks in flight and the number of posts made so far.
\<close>

definition monitor_down :: "monitor \<Rightarrow> nat \<Rightarrow> bool \<Rightarrow> nat \<Rightarrow> nat \<Rightarrow> bool" where
  "monitor_down s c p k n \<longleftrightarrow>
     provider_down (monitor_world s) \<and> consecutiveFailures s = c \<and> startup_pending s = p
     \<and> in_flight s = k \<and> length (posts (monitor_world s)) = n"

text \<open>A paused monitor, and a monitor with one tick in flight whose refresh will succeed.\<close>

definition paused_monitor :: monitor where
  "paused_monitor =
     \<lparr> consecutiveFailures = 3, startup_pending = False, in_flight = 0,
       monitor_world = due_world \<rparr>"

definition busy_monitor :: monitor where
  "busy_monitor =
     \<lparr> consecutiveFailures = 2, startup_pending = False, in_flight = 1,
       monitor_world = due_world \<rparr>"

text \<open>
  A location without a state, a job at that location that carries location and geo
  fields of its own, a job at an unknown location, the cache as it is when the module is
  loaded, and numbers printed in decimal.
\<close>

definition depot :: obj where
  "depot = [''uuid'' \<mapsto> JStr ''loc-1'', ''name'' \<mapsto> JStr ''Depot'',
            ''line1'' \<mapsto> JStr ''1 High St'', ''city'' \<mapsto> JStr ''Perth'',
            ''post_code'' \<mapsto> JNum 6000, ''country'' \<mapsto> JStr ''Australia'']"

definition job_at_depot :: obj where
  "job_at_depot =
     [''uuid'' \<mapsto> JStr ''job-1'', ''location_uuid'' \<mapsto> JStr ''loc-1'',
      ''location_name'' \<mapsto> JStr ''stale'', ''geo_city'' \<mapsto> JStr ''Sydney'',
      ''geo_state'' \<mapsto> JStr ''NSW'']"

definition job_elsewhere :: obj where
  "job_elsewhere = [''uuid'' \<mapsto> JStr ''job-2'', ''location_uuid'' \<mapsto> JStr ''loc-9'',
                    ''job_address'' \<mapsto> JStr ''2 Low Rd'']"

definition empty_cache :: location_cache where
  "empty_cache = \<lparr> locationsCache = None, locationsCacheExpiry = 0 \<rparr>"

function nat_to_string :: "nat \<Rightarrow> string" where
  "nat_to_string n =
     (if n < 10 then [''0123456789'' ! n]
      else nat_to_string (n div 10) @ [''0123456789'' ! (n mod 10)])"
  by pat_completeness auto
termination
  by (relation "measure id") auto

declare nat_to_string.simps [simp del]

definition decimal :: "int \<Rightarrow> string" where
  "decimal n = (if n < 0 then ''-'' @ nat_to_string (nat (- n)) else nat_to_string (nat n))"

section \<open>Properties of the token manager\<close>

subsection \<open>Auxiliary facts\<close>

lemma readTokenData_ghost [simp]:
  "readTokenData (w\<lparr>refresh_calls := n\<rparr>) = readTokenData w"
  "readTokenData (w\<lparr>posts := ps\<rparr>) = readTokenData w"
  "readTokenData (w\<lparr>redis_sets := ss\<rparr>) = readTokenData w"
  by (simp_all add: readTokenData_def env_tokens_def env_or_empty_def split: option.splits)

lemma writeTokenData_fields:
  "refresh_calls (snd (writeTokenData d w)) = refresh_calls w"
  "posts (snd (writeTokenData d w)) = posts w"
  "redis_sets (snd (writeTokenData d w)) = redis_sets w @ [d]"
  "redis_tokens (snd (writeTokenData d w)) = (if redis_set_ok w then Some d else redis_tokens w)"
  "fst (writeTokenData d w) = redis_set_ok w"
  by (simp_all add: writeTokenData_def)

lemma refresh_catch_fields:
  "fst (refresh_catch e w) = Inl e"
  "refresh_calls (snd (refresh_catch e w)) = refresh_calls w"
  "posts (snd (refresh_catch e w)) = posts w"
  "redis_sets (snd (refresh_catch e w)) =
     (if error_code e = Some ''invalid_grant'' then redis_sets w @ [invalidTokenData] else redis_sets w)"
  "redis_tokens (snd (refresh_catch e w)) =
     (if error_code e = Some ''invalid_grant'' \<and> redis_set_ok w then Some invalidTokenData
      else redis_tokens w)"
  by (simp_all add: refresh_catch_def Let_def writeTokenData_fields)




lemma due_world_due:
  "needsProactiveRefresh due_world"
  "fst (refreshAccessToken due_world) = Inr ''at-2''"
  by (simp_all add: needsProactiveRefresh_def truthy_num_def refreshAccessToken_def Let_def
      writeTokenData_def due_world_def fresh_world_def example_env_def readTokenData_def
      fresh_tokens_def)

lemma expiry_examples:
  "readTokenData outage_world = env_tokens outage_world"
  "expires_at (env_tokens outage_world) = Some 0"
  "readTokenData due_world = fresh_tokens"
  "expires_at fresh_tokens = Some (int (now due_world) + 10 * 60 * 1000)"
  "readTokenData (fresh_world\<lparr>now := 1700003300000\<rparr>) = fresh_tokens"
  "expires_at fresh_tokens = Some (int (now (fresh_world\<lparr>now := 1700003300000\<rparr>)) + 5 * 60 * 1000)"
  "readTokenData (fresh_world\<lparr>now := 1700003300001\<rparr>) = fresh_tokens"
  "expires_at fresh_tokens = Some 1700003600000"
  "1700003600000 < int (now (fresh_world\<lparr>now := 1700003300001\<rparr>)) + 5 * 60 * 1000"
  by (simp_all add: readTokenData_def env_tokens_def outage_world_def due_world_def
      fresh_world_def fresh_tokens_def)

lemma refresh_examples:
  "readTokenData fresh_world = fresh_tokens"
  "expires_at fresh_tokens = Some 1700003600000"
  "last_refreshed fresh_tokens = Some (int (now fresh_world))"
  "now fresh_world \<noteq> 0"
  "last_refreshed fresh_tokens = Some 1700000000000"
  "int (now due_world) - 1700000000000 \<ge> 3000 * 1000"
  by (simp_all add: readTokenData_def due_world_def fresh_world_def fresh_tokens_def)

subsection \<open>The token state checks\<close>

text \<open>
  C4. For every stored record and every time, \<open>isTokenExpired\<close> is true exactly when
  \<open>expires_at\<close> is unset or zero, or the current time plus five minutes exceeds
  \<open>expires_at\<close>. In particular it is true for \<open>expires_at = 0\<close> and for every
  \<open>expires_at\<close> less than five minutes ahead, and false for \<open>expires_at\<close> ten minutes
  ahead; at exactly five minutes ahead it is still false.
\<close>

theorem isTokenExpired_spec:
  "readTokenData w = r \<Longrightarrow>
     (isTokenExpired w \<longleftrightarrow>
        (expires_at r = None \<or> expires_at r = Some 0
         \<or> (\<exists>e. expires_at r = Some e \<and> int (now w) + 5 * 60 * 1000 > e)))
     \<and> (expires_at r = Some 0 \<longrightarrow> isTokenExpired w)
     \<and> (\<forall>e. expires_at r = Some e \<and> e < int (now w) + 5 * 60 * 1000 \<longrightarrow> isTokenExpired w)
     \<and> (expires_at r = Some (int (now w) + 5 * 60 * 1000) \<longrightarrow> \<not> isTokenExpired w)
     \<and> (expires_at r = Some (int (now w) + 10 * 60 * 1000) \<longrightarrow> \<not> isTokenExpired w)"
  by (auto simp add: isTokenExpired_def Let_def split: option.splits)

theorem isTokenExpired_spec_witness:
  "readTokenData outage_world = env_tokens outage_world
   \<and> expires_at (env_tokens outage_world) = Some 0
   \<and> isTokenExpired outage_world
   \<and> readTokenData due_world = fresh_tokens
   \<and> expires_at fresh_tokens = Some (int (now due_world) + 10 * 60 * 1000)
   \<and> \<not> isTokenExpired due_world
   \<and> \<not> isTokenExpired (fresh_world\<lparr>now := 1700003300000\<rparr>)
   \<and> isTokenExpired (fresh_world\<lparr>now := 1700003300001\<rparr>)"
  using isTokenExpired_spec [OF expiry_examples(1)]
    isTokenExpired_spec [OF expiry_examples(3)]
    isTokenExpired_spec [OF expiry_examples(5)]
    isTokenExpired_spec [OF expiry_examples(7)]
    expiry_examples
  by blast

text \<open>
  C5, as stated, fails where a field is zero. In the first world \<open>expires_at\<close> is set,
  to 0, and \<open>last_refreshed\<close> is the current time; in the second \<open>expires_at\<close> is set and
  not zero and \<open>last_refreshed\<close> is 0, which is also the current time. In both no field
  is unset and no time has passed since \<open>last_refreshed\<close>, and \<open>needsProactiveRefresh\<close>
  is true.
\<close>

theorem needsProactiveRefresh_counterexample:
  "expires_at (readTokenData zero_expiry_world) = Some 0
   \<and> last_refreshed (readTokenData zero_expiry_world) = Some (int (now zero_expiry_world))
   \<and> int (now zero_expiry_world) - int (now zero_expiry_world) < 3000 * 1000
   \<and> needsProactiveRefresh zero_expiry_world
   \<and> expires_at (readTokenData epoch_world) = Some 1700003600000
   \<and> last_refreshed (readTokenData epoch_world) = Some 0
   \<and> last_refreshed (readTokenData epoch_world) = Some (int (now epoch_world))
   \<and> int (now epoch_world) - 0 < 3000 * 1000
   \<and> needsProactiveRefresh epoch_world"
  by (simp add: needsProactiveRefresh_def readTokenData_def zero_expiry_world_def
      epoch_world_def fresh_world_def fresh_tokens_def truthy_num_def)

text \<open>
  C5, amended. \<open>needsProactiveRefresh\<close> is true exactly when \<open>expires_at\<close> is unset or
  zero, or \<open>last_refreshed\<close> is unset or zero, or at least 3000 seconds have passed since
  \<open>last_refreshed\<close>. In particular it is false for a record with a non-zero \<open>expires_at\<close>
  whose \<open>last_refreshed\<close> is the current, non-zero time.
\<close>

theorem needsProactiveRefresh_spec:
  "readTokenData w = r \<Longrightarrow>
     (needsProactiveRefresh w \<longleftrightarrow>
        (expires_at r = None \<or> expires_at r = Some 0
         \<or> last_refreshed r = None \<or> last_refreshed r = Some 0
         \<or> (\<exists>lr. last_refreshed r = Some lr \<and> int (now w) - lr \<ge> 3000 * 1000)))
     \<and> ((\<exists>e. expires_at r = Some e \<and> e \<noteq> 0) \<and> last_refreshed r = Some (int (now w))
          \<and> now w \<noteq> 0 \<longrightarrow> \<not> needsProactiveRefresh w)"
  by (auto simp add: needsProactiveRefresh_def Let_def truthy_num_def split: option.splits)

theorem needsProactiveRefresh_spec_witness:
  "readTokenData fresh_world = fresh_tokens
   \<and> expires_at fresh_tokens = Some 1700003600000
   \<and> last_refreshed fresh_tokens = Some (int (now fresh_world))
   \<and> now fresh_world \<noteq> 0
   \<and> \<not> needsProactiveRefresh fresh_world
   \<and> readTokenData due_world = fresh_tokens
   \<and> int (now due_world) - 1700000000000 \<ge> 3000 * 1000
   \<and> needsProactiveRefresh due_world"
  using needsProactiveRefresh_spec [OF refresh_examples(1)]
    needsProactiveRefresh_spec [OF expiry_examples(3)]
    refresh_examples expiry_examples(3)
  by (simp del: of_nat_numeral)

subsection \<open>The store\<close>

text \<open>
  C7. Reading never fails: \<open>readTokenData\<close> returns a record in every world. When the
  fetch succeeds and a record is stored it is that record; when the store is empty or
  the fetch fails it is the record built from the environment, with \<open>expires_in\<close> and
  \<open>expires_at\<close> zero.
\<close>

theorem readTokenData_spec:
  "(redis_get_ok w \<and> redis_tokens w = Some r \<longrightarrow> readTokenData w = r)
   \<and> (\<not> redis_get_ok w \<or> redis_tokens w = None \<longrightarrow>
        readTokenData w =
          \<lparr> access_token =
              Some (case process_env w ''SERVICEM8_ACCESS_TOKEN'' of None \<Rightarrow> [] | Some v \<Rightarrow> v),
            refresh_token =
              Some (case process_env w ''SERVICEM8_REFRESH_TOKEN'' of None \<Rightarrow> [] | Some v \<Rightarrow> v),
            expires_in = Some 0, expires_at = Some 0, last_refreshed = None,
            other_fields = Map.empty \<rparr>)"
  by (auto simp add: readTokenData_def env_tokens_def env_or_empty_def)

theorem readTokenData_spec_witness:
  "redis_get_ok fresh_world \<and> redis_tokens fresh_world = Some fresh_tokens
   \<and> readTokenData fresh_world = fresh_tokens
   \<and> \<not> redis_get_ok outage_world
   \<and> access_token (readTokenData outage_world) = Some ''env-at''
   \<and> refresh_token (readTokenData outage_world) = Some ''env-rt''
   \<and> expires_in (readTokenData outage_world) = Some 0
   \<and> expires_at (readTokenData outage_world) = Some 0
   \<and> redis_tokens (fresh_world\<lparr>redis_tokens := None\<rparr>) = None
   \<and> access_token (readTokenData (fresh_world\<lparr>redis_tokens := None\<rparr>)) = Some ''env-at''
   \<and> expires_at (readTokenData (fresh_world\<lparr>redis_tokens := None\<rparr>)) = Some 0"
  using readTokenData_spec [of fresh_world fresh_tokens]
    readTokenData_spec [of outage_world fresh_tokens]
    readTokenData_spec [of "fresh_world\<lparr>redis_tokens := None\<rparr>" fresh_tokens]
  by (simp add: outage_world_def fresh_world_def example_env_def)

text \<open>
  C9. When the store is available, writing a record and reading it back gives the record
  written.
\<close>

theorem write_then_read:
  "redis_set_ok w \<Longrightarrow> redis_get_ok w \<Longrightarrow>
     fst (writeTokenData r w) \<and> readTokenData (snd (writeTokenData r w)) = r"
  by (simp add: writeTokenData_def readTokenData_def)

theorem write_then_read_witness:
  "redis_set_ok fresh_world \<and> redis_get_ok fresh_world
   \<and> readTokenData (snd (writeTokenData invalidTokenData fresh_world)) = invalidTokenData"
  using write_then_read [of fresh_world invalidTokenData]
  by (simp add: fresh_world_def)

subsection \<open>The refresher\<close>

text \<open>
  C8. When the client id, the client secret or the refresh token of the current record is
  empty or unset, \<open>refreshAccessToken\<close> fails at once: nothing is posted to the provider
  and nothing is written to the store.
\<close>

theorem refresh_missing_credentials:
  "\<not> truthy_str (process_env w ''SERVICEM8_CLIENT_ID'')
   \<or> \<not> truthy_str (process_env w ''SERVICEM8_CLIENT_SECRET'')
   \<or> \<not> truthy_str (refresh_token (readTokenData w)) \<Longrightarrow>
     refreshAccessToken w = (Inl MissingCredentials, w\<lparr>refresh_calls := refresh_calls w + 1\<rparr>)
     \<and> posts (snd (refreshAccessToken w)) = posts w
     \<and> redis_sets (snd (refreshAccessToken w)) = redis_sets w
     \<and> redis_tokens (snd (refreshAccessToken w)) = redis_tokens w"
  by (auto simp add: refreshAccessToken_def Let_def truthy_str_def refresh_catch_def
      split: option.splits)

theorem refresh_missing_credentials_witness:
  "\<not> truthy_str (process_env no_client_world ''SERVICEM8_CLIENT_ID'')
   \<and> fst (refreshAccessToken no_client_world) = Inl MissingCredentials
   \<and> posts (snd (refreshAccessToken no_client_world)) = posts no_client_world
   \<and> redis_tokens (snd (refreshAccessToken no_client_world)) = redis_tokens no_client_world
   \<and> \<not> truthy_str (refresh_token (readTokenData empty_token_world))
   \<and> fst (refreshAccessToken empty_token_world) = Inl MissingCredentials
   \<and> posts (snd (refreshAccessToken empty_token_world)) = posts empty_token_world
   \<and> redis_tokens (snd (refreshAccessToken empty_token_world)) = redis_tokens empty_token_world"
proof -
  have a: "\<not> truthy_str (process_env no_client_world ''SERVICEM8_CLIENT_ID'')"
    by (simp add: no_client_world_def fresh_world_def truthy_str_def)
  have b: "\<not> truthy_str (refresh_token (readTokenData empty_token_world))"
    by (simp add: empty_token_world_def fresh_world_def readTokenData_def truthy_str_def)
  show ?thesis
    using a b refresh_missing_credentials [of no_client_world]
      refresh_missing_credentials [of empty_token_world]
    by simp
qed

text \<open>
  C6. When the provider grants the refresh, the new record is the old one with
  \<open>access_token\<close>, \<open>refresh_token\<close> and \<open>expires_in\<close> from the response,
  \<open>expires_at = now + expires_in * 1000\<close> and \<open>last_refreshed = now\<close>; every other field
  is kept. That record is handed to \<open>writeTokenData\<close>, which stores it and returns
  true when \<open>redis.set\<close> succeeds and returns false otherwise; the new access token is
  returned in both cases.
\<close>

theorem refresh_success:
  assumes "process_env w ''SERVICEM8_CLIENT_ID'' = Some cid" and "cid \<noteq> []"
    and "process_env w ''SERVICEM8_CLIENT_SECRET'' = Some secret" and "secret \<noteq> []"
    and "refresh_token (readTokenData w) = Some rt" and "rt \<noteq> []"
    and "token_endpoint w \<lparr> grant_type = ''refresh_token'', client_id = cid,
           client_secret = secret, form_refresh_token = rt \<rparr>
         = Granted (Response new_access_token new_refresh_token new_expires_in)"
    and "newTokenData = (readTokenData w)
           \<lparr> access_token := Some new_access_token,
             refresh_token := Some new_refresh_token,
             expires_in := Some new_expires_in,
             expires_at := Some (int (now w) + new_expires_in * 1000),
             last_refreshed := Some (int (now w)) \<rparr>"
  shows "fst (refreshAccessToken w) = Inr new_access_token
     \<and> redis_sets (snd (refreshAccessToken w)) = redis_sets w @ [newTokenData]
     \<and> redis_tokens (snd (refreshAccessToken w))
         = (if redis_set_ok w then Some newTokenData else redis_tokens w)
     \<and> fst (writeTokenData newTokenData w) = redis_set_ok w
     \<and> other_fields newTokenData = other_fields (readTokenData w)"
  using assms
  by (simp add: refreshAccessToken_def Let_def calculateTokenExpiry_def writeTokenData_fields)

theorem refresh_success_witness:
  "fst (refreshAccessToken fresh_world) = Inr ''at-2''
   \<and> redis_tokens (snd (refreshAccessToken fresh_world))
       = Some \<lparr> access_token = Some ''at-2'', refresh_token = Some ''rt-2'',
                expires_in = Some 3600, expires_at = Some 1700003600000,
                last_refreshed = Some 1700000000000,
                other_fields = [''token_type'' \<mapsto> JStr ''bearer''] \<rparr>
   \<and> fst (refreshAccessToken (fresh_world\<lparr>redis_set_ok := False\<rparr>)) = Inr ''at-2''
   \<and> redis_tokens (snd (refreshAccessToken (fresh_world\<lparr>redis_set_ok := False\<rparr>)))
       = Some fresh_tokens"
  using refresh_success [of fresh_world "''id-1''" "''secret-1''" "''rt-1''"
      "''at-2''" "''rt-2''" 3600, OF _ _ _ _ _ _ _ refl]
    refresh_success [of "fresh_world\<lparr>redis_set_ok := False\<rparr>" "''id-1''" "''secret-1''" "''rt-1''"
      "''at-2''" "''rt-2''" 3600, OF _ _ _ _ _ _ _ refl]
  by (simp add: fresh_world_def example_env_def readTokenData_def fresh_tokens_def)

text \<open>
  C2, as stated, fails: when the provider answers \<open>invalid_grant\<close> and \<open>redis.set\<close> fails,
  the stored record is not the invalidated record; it is what it was.
\<close>

theorem refresh_rejected_counterexample:
  "fst (refreshAccessToken set_down_world) = Inl (RequestFailed (Some ''invalid_grant''))
   \<and> redis_tokens (snd (refreshAccessToken set_down_world)) = redis_tokens set_down_world
   \<and> redis_tokens (snd (refreshAccessToken set_down_world)) \<noteq> Some invalidTokenData"
  by (simp add: refreshAccessToken_def Let_def refresh_catch_def writeTokenData_def
      set_down_world_def rejecting_world_def fresh_world_def example_env_def readTokenData_def
      fresh_tokens_def invalidTokenData_def)

text \<open>
  C2, amended. When the provider rejects a refresh, the error is thrown on, and
  \<open>writeTokenData\<close> is called exactly when the error code is \<open>invalid_grant\<close>: it is
  called with the invalidated record, which becomes the stored record when the write
  succeeds and leaves the stored record as it was when the write fails. On
  \<open>invalid_client\<close> and every other error nothing is written and the stored record is
  unchanged.
\<close>

theorem refresh_rejected:
  assumes "process_env w ''SERVICEM8_CLIENT_ID'' = Some cid" and "cid \<noteq> []"
    and "process_env w ''SERVICEM8_CLIENT_SECRET'' = Some secret" and "secret \<noteq> []"
    and "refresh_token (readTokenData w) = Some rt" and "rt \<noteq> []"
    and "token_endpoint w \<lparr> grant_type = ''refresh_token'', client_id = cid,
           client_secret = secret, form_refresh_token = rt \<rparr>
         = Rejected code"
  shows "fst (refreshAccessToken w) = Inl (RequestFailed code)
     \<and> (code = Some ''invalid_grant'' \<longrightarrow>
          redis_sets (snd (refreshAccessToken w)) = redis_sets w @ [invalidTokenData]
          \<and> redis_tokens (snd (refreshAccessToken w))
              = (if redis_set_ok w then Some invalidTokenData else redis_tokens w))
     \<and> (code \<noteq> Some ''invalid_grant'' \<longrightarrow>
          redis_sets (snd (refreshAccessToken w)) = redis_sets w
          \<and> redis_tokens (snd (refreshAccessToken w)) = redis_tokens w)"
  using assms
  by (simp add: refreshAccessToken_def Let_def refresh_catch_fields)

theorem refresh_rejected_witness:
  "fst (refreshAccessToken rejecting_world) = Inl (RequestFailed (Some ''invalid_grant''))
   \<and> redis_tokens (snd (refreshAccessToken rejecting_world)) = Some invalidTokenData
   \<and> fst (refreshAccessToken offline_world) = Inl (RequestFailed None)
   \<and> redis_tokens (snd (refreshAccessToken offline_world)) = Some fresh_tokens"
  using refresh_rejected [of rejecting_world "''id-1''" "''secret-1''" "''rt-1''"
      "Some ''invalid_grant''"]
    refresh_rejected [of offline_world "''id-1''" "''secret-1''" "''rt-1''" None]
  by (simp add: rejecting_world_def offline_world_def fresh_world_def example_env_def
      readTokenData_def fresh_tokens_def)

subsection \<open>The access token provider\<close>




subsection \<open>The background monitor\<close>

lemma provider_down_offline: "provider_down offline_world"
  by (simp add: provider_down_def offline_world_def fresh_world_def)

lemma provider_down_read: "provider_down w \<Longrightarrow> readTokenData w = fresh_tokens"
  by (simp add: provider_down_def readTokenData_def)

lemma provider_down_due:
  assumes "provider_down w"
  shows "needsProactiveRefresh w" and "\<not> isTokenExpired w"
  using assms
  by (simp_all add: needsProactiveRefresh_def isTokenExpired_def provider_down_read
      truthy_num_def fresh_tokens_def provider_down_def)

lemma provider_down_refresh:
  assumes "provider_down w"
  shows "fst (refreshAccessToken w) = Inl (RequestFailed None)"
    and "provider_down (snd (refreshAccessToken w))"
    and "length (posts (snd (refreshAccessToken w))) = length (posts w) + 1"
  using assms
  by (simp_all add: refreshAccessToken_def Let_def refresh_catch_def readTokenData_def
      provider_down_def example_env_def fresh_tokens_def)

lemma provider_down_getValid:
  assumes "provider_down w"
  shows "getValidAccessToken w = refreshAccessToken w"
  using provider_down_due [OF assms] provider_down_read [OF assms]
  by (simp add: getValidAccessToken_def Let_def fresh_tokens_def)

lemma monitor_down_start: "monitor_down (startTokenMonitor offline_world) 0 True 0 0"
  by (simp add: monitor_down_def startTokenMonitor_def provider_down_offline)
     (simp add: offline_world_def fresh_world_def)

lemma monitor_down_startup:
  assumes "monitor_down s c True k n"
  shows "monitor_down (startup_settles s) (Suc c) False k (Suc n)"
proof -
  let ?w = "monitor_world s"
  from assms have d: "provider_down ?w" by (simp add: monitor_down_def)
  obtain r w' where r: "refreshAccessToken ?w = (r, w')" by (cases "refreshAccessToken ?w")
  with provider_down_refresh [OF d] have "r = Inl (RequestFailed None)" "provider_down w'"
    "length (posts w') = length (posts ?w) + 1" by simp_all
  with assms r show ?thesis
    by (simp add: monitor_down_def startup_settles_def provider_down_getValid [OF d])
qed

lemma monitor_down_fires:
  assumes "monitor_down s c p k n" and "c < 3"
  shows "monitor_down (tick_fires s) c p (Suc k) n"
  using assms by (simp add: monitor_down_def tick_fires_def maxConsecutiveFailures_def)

lemma monitor_down_settles:
  assumes "monitor_down s c p (Suc k) n"
  shows "monitor_down (tick_settles s) (Suc c) p k (Suc n)"
proof -
  let ?w = "monitor_world s"
  from assms have d: "provider_down ?w" by (simp add: monitor_down_def)
  obtain r w' where r: "refreshAccessToken ?w = (r, w')" by (cases "refreshAccessToken ?w")
  with provider_down_refresh [OF d] have "r = Inl (RequestFailed None)" "provider_down w'"
    "length (posts w') = length (posts ?w) + 1" by simp_all
  with assms r show ?thesis
    by (simp add: monitor_down_def tick_settles_def provider_down_due [OF d])
qed

lemma monitor_bounded_start: "monitor_bounded (startTokenMonitor w)"
  by (simp add: monitor_bounded_def startTokenMonitor_def)

lemma monitor_bounded_startup:
  "monitor_bounded s \<Longrightarrow> monitor_bounded (startup_settles s)"
  by (auto simp add: monitor_bounded_def startup_settles_def split: prod.splits sum.splits if_splits)

lemma monitor_bounded_fires:
  "monitor_bounded s \<Longrightarrow> in_flight s = 0 \<Longrightarrow> \<not> startup_pending s
    \<Longrightarrow> monitor_bounded (tick_fires s)"
  by (simp add: monitor_bounded_def tick_fires_def maxConsecutiveFailures_def)

lemma monitor_bounded_settles:
  "monitor_bounded s \<Longrightarrow> monitor_bounded (tick_settles s)"
  by (auto simp add: monitor_bounded_def tick_settles_def split: prod.splits sum.splits if_splits)

lemma monitor_bounded_step:
  assumes "monitor_bounded s"
    and "case ev of Tick_fires \<Rightarrow> in_flight s = 0 \<and> \<not> startup_pending s | _ \<Rightarrow> True"
  shows "monitor_bounded (monitor_step ev s)"
proof (cases ev)
  case Startup_settles
  with assms show ?thesis by (simp add: monitor_bounded_startup)
next
  case Tick_fires
  with assms show ?thesis by (simp add: monitor_bounded_fires)
next
  case Tick_settles
  with assms show ?thesis by (simp add: monitor_bounded_settles)
next
  case (World_changes f)
  with assms show ?thesis by (simp add: monitor_bounded_def)
qed

lemma monitor_bounded_run:
  "monitor_bounded s \<Longrightarrow> no_overlap evs s \<Longrightarrow> monitor_bounded (monitor_run evs s)"
proof (induction evs arbitrary: s)
  case Nil
  then show ?case by simp
next
  case (Cons ev evs)
  from Cons.prems have "monitor_bounded (monitor_step ev s)"
    by (simp add: monitor_bounded_step)
  moreover from Cons.prems have "no_overlap evs (monitor_step ev s)" by simp
  ultimately show ?case using Cons.IH by simp
qed

lemma tick_fires_paused:
  "consecutiveFailures s \<ge> 3 \<Longrightarrow> tick_fires s = s"
  by (simp add: tick_fires_def maxConsecutiveFailures_def)

lemma tick_fires_counter: "consecutiveFailures (tick_fires s) = consecutiveFailures s"
  by (simp add: tick_fires_def)

lemma tick_settles_cases:
  "tick_settles s =
     (if in_flight s = 0 then s
      else if needsProactiveRefresh (monitor_world s) then
        (case fst (refreshAccessToken (monitor_world s)) of
           Inr _ \<Rightarrow>
             s\<lparr>consecutiveFailures := 0, in_flight := in_flight s - 1,
               monitor_world := snd (refreshAccessToken (monitor_world s))\<rparr>
         | Inl _ \<Rightarrow>
             s\<lparr>consecutiveFailures := consecutiveFailures s + 1, in_flight := in_flight s - 1,
               monitor_world := snd (refreshAccessToken (monitor_world s))\<rparr>)
      else s\<lparr>in_flight := in_flight s - 1\<rparr>)"
  by (simp add: tick_settles_def split: prod.splits sum.splits)

lemma tick_settles_reset:
  "in_flight s > 0 \<Longrightarrow> needsProactiveRefresh (monitor_world s)
    \<Longrightarrow> fst (refreshAccessToken (monitor_world s)) = Inr tok
    \<Longrightarrow> consecutiveFailures (tick_settles s) = 0"
  by (simp add: tick_settles_cases)

lemma tick_settles_lower:
  assumes "consecutiveFailures (tick_settles s) < consecutiveFailures s"
  shows "in_flight s > 0 \<and> needsProactiveRefresh (monitor_world s)
         \<and> (\<exists>tok. fst (refreshAccessToken (monitor_world s)) = Inr tok)"
proof (cases "in_flight s = 0")
  case True
  with assms show ?thesis by (simp add: tick_settles_cases)
next
  case False
  show ?thesis
  proof (cases "needsProactiveRefresh (monitor_world s)")
    case True
    show ?thesis
    proof (cases "fst (refreshAccessToken (monitor_world s))")
      case (Inl e)
      with assms True False show ?thesis by (simp add: tick_settles_cases)
    next
      case (Inr tok)
      with True False show ?thesis by simp
    qed
  next
    case nd: False
    with assms False show ?thesis by (simp add: tick_settles_cases)
  qed
qed

lemma busy_monitor_facts:
  "in_flight busy_monitor > 0"
  "needsProactiveRefresh (monitor_world busy_monitor)"
  "fst (refreshAccessToken (monitor_world busy_monitor)) = Inr ''at-2''"
  "consecutiveFailures busy_monitor = 2"
  "consecutiveFailures paused_monitor \<ge> 3"
  by (simp_all add: busy_monitor_def paused_monitor_def due_world_due)

lemma sequential_run:
  "no_overlap [Startup_settles, Tick_fires, Tick_settles, Tick_fires, Tick_settles,
               Tick_fires, Tick_settles] (startTokenMonitor offline_world)"
  "length (posts (monitor_world
     (monitor_run [Startup_settles, Tick_fires, Tick_settles, Tick_fires, Tick_settles,
                   Tick_fires, Tick_settles] (startTokenMonitor offline_world)))) = 3"
proof -
  let ?s0 = "startTokenMonitor offline_world"
  let ?s1 = "startup_settles ?s0"
  let ?s2 = "tick_fires ?s1"
  let ?s3 = "tick_settles ?s2"
  let ?s4 = "tick_fires ?s3"
  let ?s5 = "tick_settles ?s4"
  have 1: "monitor_down ?s1 (Suc 0) False 0 (Suc 0)"
    by (rule monitor_down_startup [OF monitor_down_start])
  then have 2: "monitor_down ?s2 (Suc 0) False (Suc 0) (Suc 0)"
    by (rule monitor_down_fires) simp
  then have 3: "monitor_down ?s3 (Suc (Suc 0)) False 0 (Suc (Suc 0))"
    by (rule monitor_down_settles)
  then have 4: "monitor_down ?s4 (Suc (Suc 0)) False (Suc 0) (Suc (Suc 0))"
    by (rule monitor_down_fires) simp
  then have 5: "monitor_down ?s5 (Suc (Suc (Suc 0))) False 0 (Suc (Suc (Suc 0)))"
    by (rule monitor_down_settles)
  then have 6: "tick_fires ?s5 = ?s5"
    by (simp add: monitor_down_def tick_fires_paused)
  from 5 have 7: "tick_settles ?s5 = ?s5"
    by (simp add: monitor_down_def tick_settles_def)
  from 1 3 5 6
  show "no_overlap [Startup_settles, Tick_fires, Tick_settles, Tick_fires, Tick_settles,
               Tick_fires, Tick_settles] (startTokenMonitor offline_world)"
    by (simp add: monitor_down_def)
  from 5 6 7
  show "length (posts (monitor_world
     (monitor_run [Startup_settles, Tick_fires, Tick_settles, Tick_fires, Tick_settles,
                   Tick_fires, Tick_settles] (startTokenMonitor offline_world)))) = 3"
    by (simp add: monitor_down_def)
qed

text \<open>
  C3, as stated, fails: the counter does not stay in \<open>[0, 3]\<close> when ticks overlap. With
  the provider unreachable the start-up check fails and one tick fails, which takes the
  counter to 2; then the timer fires twice before either tick settles, both ticks pass
  the test of line 222, and both fail: the counter is 4, and four posts have gone to the
  provider.
\<close>

theorem monitor_counter_counterexample:
  "consecutiveFailures
     (monitor_run [Startup_settles, Tick_fires, Tick_settles, Tick_fires, Tick_fires,
                   Tick_settles, Tick_settles] (startTokenMonitor offline_world)) = 4
   \<and> length (posts (monitor_world
     (monitor_run [Startup_settles, Tick_fires, Tick_settles, Tick_fires, Tick_fires,
                   Tick_settles, Tick_settles] (startTokenMonitor offline_world)))) = 4"
proof -
  let ?s0 = "startTokenMonitor offline_world"
  let ?s1 = "startup_settles ?s0"
  let ?s2 = "tick_fires ?s1"
  let ?s3 = "tick_settles ?s2"
  let ?s4 = "tick_fires ?s3"
  let ?s5 = "tick_fires ?s4"
  let ?s6 = "tick_settles ?s5"
  let ?s7 = "tick_settles ?s6"
  have "monitor_down ?s1 (Suc 0) False 0 (Suc 0)"
    by (rule monitor_down_startup [OF monitor_down_start])
  then have "monitor_down ?s2 (Suc 0) False (Suc 0) (Suc 0)"
    by (rule monitor_down_fires) simp
  then have "monitor_down ?s3 (Suc (Suc 0)) False 0 (Suc (Suc 0))"
    by (rule monitor_down_settles)
  then have "monitor_down ?s4 (Suc (Suc 0)) False (Suc 0) (Suc (Suc 0))"
    by (rule monitor_down_fires) simp
  then have "monitor_down ?s5 (Suc (Suc 0)) False (Suc (Suc 0)) (Suc (Suc 0))"
    by (rule monitor_down_fires) simp
  then have "monitor_down ?s6 (Suc (Suc (Suc 0))) False (Suc 0) (Suc (Suc (Suc 0)))"
    by (rule monitor_down_settles)
  then have "monitor_down ?s7 (Suc (Suc (Suc (Suc 0)))) False 0 (Suc (Suc (Suc (Suc 0))))"
    by (rule monitor_down_settles)
  then show ?thesis by (simp add: monitor_down_def)
qed

text \<open>
  C3, amended. In a run without overlap (the timer fires only when the start-up check
  has settled and no tick is in flight) the counter stays in \<open>[0, 3]\<close>. A tick that
  fires while the counter is 3 or more leaves the monitor and the world as they were: no
  refresh and no post to the provider. A tick whose refresh succeeds sets the counter to
  0. No tick lowers the counter without a successful refresh: firing never changes the
  counter, and a tick that settles with a lower counter is one whose refresh succeeded.
\<close>

theorem monitor_counter:
  "(no_overlap evs (startTokenMonitor w0)
      \<longrightarrow> consecutiveFailures (monitor_run evs (startTokenMonitor w0)) \<le> 3)
   \<and> (consecutiveFailures s \<ge> 3 \<longrightarrow> tick_fires s = s)
   \<and> (in_flight s > 0 \<and> needsProactiveRefresh (monitor_world s)
        \<and> fst (refreshAccessToken (monitor_world s)) = Inr tok
        \<longrightarrow> consecutiveFailures (tick_settles s) = 0)
   \<and> consecutiveFailures (tick_fires s) = consecutiveFailures s
   \<and> (consecutiveFailures (tick_settles s) < consecutiveFailures s
        \<longrightarrow> in_flight s > 0 \<and> needsProactiveRefresh (monitor_world s)
            \<and> (\<exists>tok. fst (refreshAccessToken (monitor_world s)) = Inr tok))"
proof (intro conjI impI)
  assume "no_overlap evs (startTokenMonitor w0)"
  with monitor_bounded_start have "monitor_bounded (monitor_run evs (startTokenMonitor w0))"
    by (rule monitor_bounded_run)
  then show "consecutiveFailures (monitor_run evs (startTokenMonitor w0)) \<le> 3"
    by (simp add: monitor_bounded_def)
next
  assume "consecutiveFailures s \<ge> 3"
  then show "tick_fires s = s" by (rule tick_fires_paused)
next
  assume "in_flight s > 0 \<and> needsProactiveRefresh (monitor_world s)
        \<and> fst (refreshAccessToken (monitor_world s)) = Inr tok"
  then show "consecutiveFailures (tick_settles s) = 0" by (simp add: tick_settles_reset)
next
  show "consecutiveFailures (tick_fires s) = consecutiveFailures s" by (rule tick_fires_counter)
next
  assume l: "consecutiveFailures (tick_settles s) < consecutiveFailures s"
  from tick_settles_lower [OF l] show "in_flight s > 0" by simp
  from tick_settles_lower [OF l] show "needsProactiveRefresh (monitor_world s)" by simp
  from tick_settles_lower [OF l]
  show "\<exists>tok. fst (refreshAccessToken (monitor_world s)) = Inr tok" by simp
qed

theorem monitor_counter_witness:
  "no_overlap [Startup_settles, Tick_fires, Tick_settles, Tick_fires, Tick_settles,
               Tick_fires, Tick_settles] (startTokenMonitor offline_world)
   \<and> consecutiveFailures
       (monitor_run [Startup_settles, Tick_fires, Tick_settles, Tick_fires, Tick_settles,
                     Tick_fires, Tick_settles] (startTokenMonitor offline_world)) \<le> 3
   \<and> length (posts (monitor_world
       (monitor_run [Startup_settles, Tick_fires, Tick_settles, Tick_fires, Tick_settles,
                     Tick_fires, Tick_settles] (startTokenMonitor offline_world)))) = 3
   \<and> consecutiveFailures paused_monitor \<ge> 3
   \<and> tick_fires paused_monitor = paused_monitor
   \<and> in_flight busy_monitor > 0
   \<and> needsProactiveRefresh (monitor_world busy_monitor)
   \<and> fst (refreshAccessToken (monitor_world busy_monitor)) = Inr ''at-2''
   \<and> consecutiveFailures (tick_settles busy_monitor) = 0
   \<and> consecutiveFailures (tick_settles busy_monitor) < consecutiveFailures busy_monitor"
  using monitor_counter [of "[Startup_settles, Tick_fires, Tick_settles, Tick_fires,
        Tick_settles, Tick_fires, Tick_settles]" offline_world paused_monitor "''at-2''"]
    monitor_counter [of "[]" offline_world busy_monitor "''at-2''"]
    sequential_run busy_monitor_facts
  by simp

section \<open>Properties of the location helper\<close>

subsection \<open>Auxiliary facts\<close>

lemma locationMap_of_snoc:
  "locationMap_of (locations @ [l]) =
     (if truthy (field l ''uuid'') then (locationMap_of locations)(field l ''uuid'' \<mapsto> l)
      else locationMap_of locations)"
  by (simp add: locationMap_of_def)

lemma locationMap_of_find:
  "locationMap_of locations k =
     (if truthy k then find (\<lambda>l. field l ''uuid'' = k) (rev locations) else None)"
proof (induction locations rule: rev_induct)
  case Nil
  then show ?case by (simp add: locationMap_of_def)
next
  case (snoc l locations)
  then show ?case by (auto simp add: locationMap_of_snoc)
qed

lemma find_None_set: "find P xs = None \<longleftrightarrow> \<not> (\<exists>x \<in> set xs. P x)"
  by (auto simp add: find_None_iff)

lemma resolve_job_unmatched:
  assumes "\<not> (truthy (field job ''location_uuid'')
      \<and> (\<exists>l \<in> set locations. field l ''uuid'' = field job ''location_uuid''))"
  shows "resolve_job number_string (locationMap_of locations) job = job"
proof (cases "truthy (field job ''location_uuid'')")
  case True
  with assms have "locationMap_of locations (field job ''location_uuid'') = None"
    by (simp add: locationMap_of_find find_None_set)
  then show ?thesis by (simp add: resolve_job_def)
next
  case False
  then show ?thesis by (simp add: resolve_job_def)
qed

lemma resolve_job_matched:
  assumes "truthy (field job ''location_uuid'')"
    and "\<exists>l \<in> set locations. field l ''uuid'' = field job ''location_uuid''"
  shows "\<exists>location.
       find (\<lambda>l. field l ''uuid'' = field job ''location_uuid'') (rev locations) = Some location
     \<and> resolve_job number_string (locationMap_of locations) job =
         job(''location_address'' \<mapsto> formatLocationAddress number_string (Some location),
             ''location_name'' \<mapsto> field location ''name'',
             ''location_city'' \<mapsto> field location ''city'',
             ''location_state'' \<mapsto> field location ''state'',
             ''location_postcode'' \<mapsto> field location ''post_code'',
             ''location_country'' \<mapsto> field location ''country'',
             ''geo_street'' \<mapsto> field location ''line1'',
             ''geo_city'' \<mapsto> field location ''city'',
             ''geo_state'' \<mapsto> field location ''state'',
             ''geo_postcode'' \<mapsto> field location ''post_code'',
             ''geo_country'' \<mapsto> field location ''country'',
             ''job_address'' \<mapsto>
               (if truthy (field job ''job_address'') then field job ''job_address''
                else formatLocationAddress number_string (Some location)))"
proof -
  from assms(2) have "find (\<lambda>l. field l ''uuid'' = field job ''location_uuid'') (rev locations) \<noteq> None"
    by (simp add: find_None_set)
  then obtain location where
    f: "find (\<lambda>l. field l ''uuid'' = field job ''location_uuid'') (rev locations) = Some location"
    by blast
  with assms(1) have "locationMap_of locations (field job ''location_uuid'') = Some location"
    by (simp add: locationMap_of_find)
  with assms(1) f show ?thesis
    by (simp add: resolve_job_def js_or_def del: formatLocationAddress.simps)
qed

lemma resolve_shape:
  "fst (resolveJobLocationData number_string now_ms api (JobArray js) s)
     = JobArray (map (resolve_job number_string
                        (locationMap_of (fst (getAllLocations now_ms api s)))) js)"
  "fst (resolveJobLocationData number_string now_ms api (JobObject j) s)
     = JobObject (resolve_job number_string
                    (locationMap_of (fst (getAllLocations now_ms api s))) j)"
  by (simp_all add: resolveJobLocationData_def Let_def split: prod.splits)

lemma nat_to_string_6000: "nat_to_string 6000 = ''6000''"
  by (simp add: nat_to_string.simps)

lemma formatLocationAddress_depot:
  "formatLocationAddress decimal (Some depot) = JStr ''1 High St, Perth, 6000''"
  by (simp add: depot_def field_def push_if_def decimal_def nat_to_string_6000)

lemma depot_fetched:
  "fst (getAllLocations 1700000000000 (Some [depot]) empty_cache) = [depot]"
  by (simp add: getAllLocations_def empty_cache_def)

lemma depot_lookup:
  "locationMap_of [depot] (JStr ''loc-1'') = Some depot"
  "locationMap_of [depot] (JStr ''loc-9'') = None"
  by (simp_all add: locationMap_of_def depot_def field_def)

lemma resolve_job_at_depot:
  "resolve_job decimal (locationMap_of [depot]) job_at_depot =
     job_at_depot(''location_address'' \<mapsto> JStr ''1 High St, Perth, 6000'',
       ''location_name'' \<mapsto> JStr ''Depot'',
       ''location_city'' \<mapsto> JStr ''Perth'',
       ''location_state'' \<mapsto> JUndefined,
       ''location_postcode'' \<mapsto> JNum 6000,
       ''location_country'' \<mapsto> JStr ''Australia'',
       ''geo_street'' \<mapsto> JStr ''1 High St'',
       ''geo_city'' \<mapsto> JStr ''Perth'',
       ''geo_state'' \<mapsto> JUndefined,
       ''geo_postcode'' \<mapsto> JNum 6000,
       ''geo_country'' \<mapsto> JStr ''Australia'',
       ''job_address'' \<mapsto> JStr ''1 High St, Perth, 6000'')"
proof -
  have u: "field job_at_depot ''location_uuid'' = JStr ''loc-1''"
    and a: "field job_at_depot ''job_address'' = JUndefined"
    by (simp_all add: job_at_depot_def field_def)
  have d: "field depot ''name'' = JStr ''Depot''" "field depot ''city'' = JStr ''Perth''"
    "field depot ''state'' = JUndefined" "field depot ''post_code'' = JNum 6000"
    "field depot ''country'' = JStr ''Australia''" "field depot ''line1'' = JStr ''1 High St''"
    by (simp_all add: depot_def field_def)
  show ?thesis
    by (simp add: resolve_job_def u a d depot_lookup formatLocationAddress_depot js_or_def
        del: formatLocationAddress.simps)
qed

lemma depot_jobs:
  "truthy (field job_at_depot ''location_uuid'')"
  "field depot ''uuid'' = field job_at_depot ''location_uuid''"
  "field depot ''uuid'' \<noteq> field job_elsewhere ''location_uuid''"
  "\<not> truthy (field job_at_depot ''job_address'')"
  "job_at_depot ''uuid'' = Some (JStr ''job-1'')"
  "''uuid'' \<notin> location_fields"
  "field depot ''name'' = JStr ''Depot''"
  "field depot ''state'' = JUndefined"
  by (simp_all add: depot_def job_at_depot_def job_elsewhere_def field_def location_fields_def)

lemma depot_found:
  "find (\<lambda>l. field l ''uuid'' = field job_at_depot ''location_uuid'') (rev [depot]) = Some depot"
  "(\<exists>l \<in> set [depot]. field l ''uuid'' = field job_at_depot ''location_uuid'')"
  "\<not> (\<exists>l \<in> set [depot]. field l ''uuid'' = field job_elsewhere ''location_uuid'')"
  using depot_jobs by simp_all

subsection \<open>The shape of the result\<close>

text \<open>
  C10, as stated, fails: a matching job does not keep all its original fields. The job
  at the depot carries \<open>location_name\<close>, \<open>geo_city\<close> and \<open>geo_state\<close> of its own; the
  result has the depot's name and city in their place, and \<open>undefined\<close> for \<open>geo_state\<close>,
  since the depot has no state.
\<close>

theorem resolveJobLocationData_counterexample:
  "job_at_depot ''location_name'' = Some (JStr ''stale'')
   \<and> job_at_depot ''geo_city'' = Some (JStr ''Sydney'')
   \<and> job_at_depot ''geo_state'' = Some (JStr ''NSW'')
   \<and> fst (resolveJobLocationData decimal 1700000000000 (Some [depot])
            (JobObject job_at_depot) empty_cache)
       = JobObject (resolve_job decimal (locationMap_of [depot]) job_at_depot)
   \<and> resolve_job decimal (locationMap_of [depot]) job_at_depot ''location_name''
       = Some (JStr ''Depot'')
   \<and> resolve_job decimal (locationMap_of [depot]) job_at_depot ''geo_city''
       = Some (JStr ''Perth'')
   \<and> resolve_job decimal (locationMap_of [depot]) job_at_depot ''geo_state''
       = Some JUndefined"
  by (simp add: resolve_shape depot_fetched resolve_job_at_depot)
     (simp add: job_at_depot_def)

text \<open>
  C10, amended. \<open>resolveJobLocationData\<close> answers an array with an array of the same
  length in the same order, and one job with one job. A job whose \<open>location_uuid\<close> is
  falsy or is the uuid of no fetched location comes back as it was. A job whose
  \<open>location_uuid\<close> is the uuid of a fetched location keeps every field outside
  \<open>location_fields\<close> with its value. Its eleven \<open>location_*\<close> and \<open>geo_*\<close> fields of
  \<open>location_fields\<close> are set from the last fetched location with that uuid, whatever
  the job had there, and to \<open>undefined\<close> where the location lacks the field. Its
  \<open>job_address\<close> is kept when truthy and is the formatted address of the location
  otherwise.
\<close>

theorem resolveJobLocationData_shape:
  "let locations = fst (getAllLocations now_ms api s);
       matched = (\<lambda>job. truthy (field job ''location_uuid'')
                   \<and> (\<exists>l \<in> set locations. field l ''uuid'' = field job ''location_uuid''));
       resolved = (\<lambda>job job'.
          (\<not> matched job \<longrightarrow> job' = job)
          \<and> (matched job \<longrightarrow>
               (\<exists>location.
                  find (\<lambda>l. field l ''uuid'' = field job ''location_uuid'') (rev locations)
                    = Some location
                  \<and> job' =
                     job(''location_address'' \<mapsto> formatLocationAddress number_string (Some location),
                         ''location_name'' \<mapsto> field location ''name'',
                         ''location_city'' \<mapsto> field location ''city'',
                         ''location_state'' \<mapsto> field location ''state'',
                         ''location_postcode'' \<mapsto> field location ''post_code'',
                         ''location_country'' \<mapsto> field location ''country'',
                         ''geo_street'' \<mapsto> field location ''line1'',
                         ''geo_city'' \<mapsto> field location ''city'',
                         ''geo_state'' \<mapsto> field location ''state'',
                         ''geo_postcode'' \<mapsto> field location ''post_code'',
                         ''geo_country'' \<mapsto> field location ''country'',
                         ''job_address'' \<mapsto>
                           (if truthy (field job ''job_address'') then field job ''job_address''
                            else formatLocationAddress number_string (Some location))))
               \<and> (\<forall>k. k \<notin> location_fields \<longrightarrow> job' k = job k)))
   in (\<exists>js'. fst (resolveJobLocationData number_string now_ms api (JobArray js) s) = JobArray js'
              \<and> length js' = length js
              \<and> (\<forall>i < length js. resolved (js ! i) (js' ! i)))
      \<and> (\<exists>j'. fst (resolveJobLocationData number_string now_ms api (JobObject j) s) = JobObject j'
                \<and> resolved j j')"
proof -
  let ?locs = "fst (getAllLocations now_ms api s)"
  have keeps: "k \<notin> location_fields \<Longrightarrow>
      resolve_job number_string (locationMap_of ?locs) job k = job k" for k job
    by (simp add: resolve_job_def location_fields_def split: option.splits
        del: formatLocationAddress.simps)
  show ?thesis
    unfolding Let_def resolve_shape
    using resolve_job_matched [of _ ?locs number_string]
      resolve_job_unmatched [of _ ?locs number_string] keeps
    by (simp del: formatLocationAddress.simps)
qed

theorem resolveJobLocationData_shape_witness:
  "(\<exists>js'. fst (resolveJobLocationData decimal 1700000000000 (Some [depot])
                (JobArray [job_at_depot, job_elsewhere]) empty_cache) = JobArray js'
         \<and> length js' = 2
         \<and> js' ! 1 = job_elsewhere
         \<and> (js' ! 0) ''uuid'' = Some (JStr ''job-1'')
         \<and> (js' ! 0) ''location_name'' = Some (JStr ''Depot'')
         \<and> (js' ! 0) ''geo_state'' = Some JUndefined
         \<and> (js' ! 0) ''job_address'' = Some (JStr ''1 High St, Perth, 6000''))
   \<and> fst (resolveJobLocationData decimal 1700000000000 (Some [depot])
                (JobObject job_elsewhere) empty_cache) = JobObject job_elsewhere"
proof -
  define resolved where "resolved = (\<lambda>job job'.
          (\<not> (truthy (field job ''location_uuid'')
                   \<and> (\<exists>l \<in> set [depot]. field l ''uuid'' = field job ''location_uuid''))
             \<longrightarrow> job' = job)
          \<and> (truthy (field job ''location_uuid'')
                   \<and> (\<exists>l \<in> set [depot]. field l ''uuid'' = field job ''location_uuid'') \<longrightarrow>
               (\<exists>location.
                  find (\<lambda>l. field l ''uuid'' = field job ''location_uuid'') (rev [depot])
                    = Some location
                  \<and> job' =
                     job(''location_address'' \<mapsto> formatLocationAddress decimal (Some location),
                         ''location_name'' \<mapsto> field location ''name'',
                         ''location_city'' \<mapsto> field location ''city'',
                         ''location_state'' \<mapsto> field location ''state'',
                         ''location_postcode'' \<mapsto> field location ''post_code'',
                         ''location_country'' \<mapsto> field location ''country'',
                         ''geo_street'' \<mapsto> field location ''line1'',
                         ''geo_city'' \<mapsto> field location ''city'',
                         ''geo_state'' \<mapsto> field location ''state'',
                         ''geo_postcode'' \<mapsto> field location ''post_code'',
                         ''geo_country'' \<mapsto> field location ''country'',
                         ''job_address'' \<mapsto>
                           (if truthy (field job ''job_address'') then field job ''job_address''
                            else formatLocationAddress decimal (Some location))))
               \<and> (\<forall>k. k \<notin> location_fields \<longrightarrow> job' k = job k)))"
  have shape:
    "(\<exists>js'. fst (resolveJobLocationData decimal 1700000000000 (Some [depot])
                (JobArray [job_at_depot, job_elsewhere]) empty_cache) = JobArray js'
              \<and> length js' = length [job_at_depot, job_elsewhere]
              \<and> (\<forall>i < length [job_at_depot, job_elsewhere].
                    resolved ([job_at_depot, job_elsewhere] ! i) (js' ! i)))
      \<and> (\<exists>j'. fst (resolveJobLocationData decimal 1700000000000 (Some [depot])
                (JobObject job_elsewhere) empty_cache) = JobObject j'
                \<and> resolved job_elsewhere j')"
    using resolveJobLocationData_shape [of 1700000000000 "Some [depot]" empty_cache
      decimal "[job_at_depot, job_elsewhere]" job_elsewhere]
    unfolding Let_def depot_fetched resolved_def .
  then obtain js' where
    out: "fst (resolveJobLocationData decimal 1700000000000 (Some [depot])
                (JobArray [job_at_depot, job_elsewhere]) empty_cache) = JobArray js'"
    and len: "length js' = length [job_at_depot, job_elsewhere]"
    and each: "\<forall>i < length [job_at_depot, job_elsewhere].
                    resolved ([job_at_depot, job_elsewhere] ! i) (js' ! i)"
    by blast
  from each have "resolved job_at_depot (js' ! 0)" by (auto dest!: spec [of _ 0])
  then have first: "js' ! 0 =
       job_at_depot(''location_address'' \<mapsto> formatLocationAddress decimal (Some depot),
         ''location_name'' \<mapsto> field depot ''name'',
         ''location_city'' \<mapsto> field depot ''city'',
         ''location_state'' \<mapsto> field depot ''state'',
         ''location_postcode'' \<mapsto> field depot ''post_code'',
         ''location_country'' \<mapsto> field depot ''country'',
         ''geo_street'' \<mapsto> field depot ''line1'',
         ''geo_city'' \<mapsto> field depot ''city'',
         ''geo_state'' \<mapsto> field depot ''state'',
         ''geo_postcode'' \<mapsto> field depot ''post_code'',
         ''geo_country'' \<mapsto> field depot ''country'',
         ''job_address'' \<mapsto> formatLocationAddress decimal (Some depot))"
    unfolding resolved_def using depot_found(1,2) depot_jobs(1,4)
    by (simp del: formatLocationAddress.simps set_simps rev.simps)
  from each have "resolved job_elsewhere (js' ! 1)" by (auto dest!: spec [of _ 1])
  then have second: "js' ! 1 = job_elsewhere"
    unfolding resolved_def using depot_found(3) by blast
  from shape obtain j' where
    "fst (resolveJobLocationData decimal 1700000000000 (Some [depot])
                (JobObject job_elsewhere) empty_cache) = JobObject j'"
    and "resolved job_elsewhere j'" by blast
  then have single: "fst (resolveJobLocationData decimal 1700000000000 (Some [depot])
                (JobObject job_elsewhere) empty_cache) = JobObject job_elsewhere"
    unfolding resolved_def using depot_found(3) by blast
  from first have "(js' ! 0) ''uuid'' = Some (JStr ''job-1'')"
    and "(js' ! 0) ''location_name'' = Some (JStr ''Depot'')"
    and "(js' ! 0) ''geo_state'' = Some JUndefined"
    and "(js' ! 0) ''job_address'' = Some (JStr ''1 High St, Perth, 6000'')"
    by (simp_all add: depot_jobs formatLocationAddress_depot del: formatLocationAddress.simps)
  with out len second single show ?thesis by simp
qed

end
